theory Spec2Isabelle
  imports Complex_Main "HOL-Library.Sublist" "HOL-Library.AList"
begin

section \<open>JavaScript strings\<close>

text \<open>
  Strings are lists of characters. \<open>str_includes s t\<close> is \<^verbatim>\<open>s.includes(t)\<close>: the test
  whether \<open>t\<close> occurs in \<open>s\<close> as a contiguous piece.
\<close>

fun str_includes :: "string \<Rightarrow> string \<Rightarrow> bool" where
  "str_includes [] t = (t = [])"
| "str_includes (c # cs) t = (prefix t (c # cs) \<or> str_includes cs t)"

section \<open>JavaScript values\<close>

text \<open>
  A number is NaN, an infinity, or the rational that a finite double denotes (negative
  zero is not told apart from zero). An object is the list of its properties in
  insertion order, a property set twice keeps its first place (\<open>AList.update\<close>), as in
  an object literal with a spread.
\<close>

datatype jsnum = NaN | PosInfinity | NegInfinity | Num rat

datatype jsval =
    JUndefined
  | JNull
  | JBool bool
  | JNum jsnum
  | JStr string
  | JArr "jsval list"

type_synonym jsobj = "(string \<times> jsval) list"

text \<open>\<^verbatim>\<open>a || b\<close> on an optional string: undefined and the empty string are falsy.\<close>

definition orElse :: "string option \<Rightarrow> string \<Rightarrow> string" where
  "orElse a b = (case a of None \<Rightarrow> b | Some s \<Rightarrow> if s = [] then b else s)"

definition truthy :: "string option \<Rightarrow> bool" where
  "truthy a = (case a of None \<Rightarrow> False | Some s \<Rightarrow> s \<noteq> [])"

text \<open>A value of type \<^verbatim>\<open>string | null\<close> inside a template literal.\<close>

definition template :: "string option \<Rightarrow> string" where
  "template a = (case a of None \<Rightarrow> ''null'' | Some s \<Rightarrow> s)"

text \<open>
  A form value that is a string or undefined, where the code needs a string (an
  argument of \<^verbatim>\<open>parseFloat\<close>, an operand of \<^verbatim>\<open>+\<close> with a string).
\<close>

definition toString :: "string option \<Rightarrow> string" where
  "toString a = (case a of None \<Rightarrow> ''undefined'' | Some s \<Rightarrow> s)"

section \<open>Job directory: the job record\<close>

text \<open>The interface \<^verbatim>\<open>Job\<close> of JobsScreen.tsx; \<open>job_id\<close> is its field \<^verbatim>\<open>id\<close>.\<close>

record Job =
  job_id :: string
  title :: string
  job_type :: string
  description :: "string option"
  hourly_rate :: rat
  location_address :: string
  location_city :: string
  location_state :: string
  location_zip :: string
  job_date :: string
  start_time :: string
  end_time :: string
  created_at :: string
  applications_count :: nat

section \<open>Effects: device storage, alerts and HTTP\<close>

text \<open>
  What a handler does to the outside is recorded in order: every call of
  \<^verbatim>\<open>Alert.alert\<close> with its title and message, every \<^verbatim>\<open>axios.post\<close> with URL, body and
  headers, every \<^verbatim>\<open>axios.get\<close> with URL and headers. \<^verbatim>\<open>console.error\<close> is left out.
  \<open>storage\<close> is the content of AsyncStorage.
\<close>

datatype event =
    Alert string string
  | Post string jsobj "(string \<times> string) list"
  | Get string "(string \<times> string) list"

record Device =
  storage :: "string \<rightharpoonup> string"
  events :: "event list"

text \<open>
  A rejected request: \<open>detail\<close> is \<^verbatim>\<open>error.response?.data?.detail\<close>, undefined when the
  error carries no response.
\<close>

datatype http_error = HttpError (detail: "string option")

text \<open>
  The data of a successful answer to a POST, as far as a handler reads it, when it is
  a value with properties. \<open>axios_post\<close> answers \<open>Inr None\<close> when the request succeeds
  and the data is null or undefined, so that reading a property of it throws.
\<close>

record PostResponse =
  access_token :: "string option"

text \<open>
  The environment of the handlers: the backend URL of the configuration, the answers of
  the server, which AsyncStorage calls reject, and the functions of the JavaScript
  engine. These are parameters: \<open>toLowerCase\<close> is \<^verbatim>\<open>String.prototype.toLowerCase\<close>,
  \<open>parseFloat\<close> and \<open>parseInt\<close> are the global functions of these names (\<open>parseInt\<close>
  with no radix), \<open>JSON_parse\<close> is None where \<^verbatim>\<open>JSON.parse\<close> throws, and \<open>toISOString\<close>
  gives \<^verbatim>\<open>new Date(s).toISOString()\<close>, None where the date is invalid and the call throws
  a RangeError. \<open>'u\<close> is the type of user profiles.
\<close>

record 'u env =
  EXPO_PUBLIC_BACKEND_URL :: string
  axios_post ::
    "string \<Rightarrow> jsobj \<Rightarrow> (string \<times> string) list \<Rightarrow> http_error + PostResponse option"
  axios_get_user :: "string \<Rightarrow> (string \<times> string) list \<Rightarrow> http_error + 'u"
  axios_get_jobs :: "string \<Rightarrow> (string \<times> string) list \<Rightarrow> http_error + Job list"
  getItem_rejects :: "string \<Rightarrow> bool"
  setItem_rejects :: "string \<Rightarrow> bool"
  JSON_parse :: "string \<Rightarrow> 'u option"
  JSON_stringify :: "'u \<Rightarrow> string"
  toISOString :: "string \<Rightarrow> string option"
  toLowerCase :: "string \<Rightarrow> string"
  parseFloat :: "string \<Rightarrow> jsnum"
  parseInt :: "string \<Rightarrow> jsnum"

definition alert :: "string \<Rightarrow> string \<Rightarrow> 'a Device_scheme \<Rightarrow> 'a Device_scheme" where
  "alert t m dev = dev\<lparr>events := events dev @ [Alert t m]\<rparr>"

definition sent :: "event \<Rightarrow> 'a Device_scheme \<Rightarrow> 'a Device_scheme" where
  "sent e dev = dev\<lparr>events := events dev @ [e]\<rparr>"

text \<open>\<^verbatim>\<open>AsyncStorage.getItem\<close>: \<open>Inl ()\<close> is a rejected promise, \<open>Inr None\<close> is null.\<close>

definition getItem :: "'u env \<Rightarrow> string \<Rightarrow> 'a Device_scheme \<Rightarrow> unit + string option" where
  "getItem E k dev = (if getItem_rejects E k then Inl () else Inr (storage dev k))"

definition setItem ::
  "'u env \<Rightarrow> string \<Rightarrow> string \<Rightarrow> 'a Device_scheme \<Rightarrow> unit + 'a Device_scheme" where
  "setItem E k v dev =
     (if setItem_rejects E k then Inl () else Inr (dev\<lparr>storage := (storage dev)(k \<mapsto> v)\<rparr>))"

definition bearer :: "string option \<Rightarrow> (string \<times> string) list" where
  "bearer token = [(''Authorization'', ''Bearer '' @ template token)]"

section \<open>Job directory: the filter of JobsScreen\<close>

text \<open>The predicate of the first \<^verbatim>\<open>filter\<close> call in \<^verbatim>\<open>filterJobs\<close>.\<close>

definition matchesSearch :: "'u env \<Rightarrow> string \<Rightarrow> Job \<Rightarrow> bool" where
  "matchesSearch E searchText job \<longleftrightarrow>
     str_includes (toLowerCase E (Job.title job)) (toLowerCase E searchText) \<or>
     str_includes (toLowerCase E (Job.location_city job)) (toLowerCase E searchText) \<or>
     str_includes (toLowerCase E (Job.location_state job)) (toLowerCase E searchText)"

text \<open>
  \<^verbatim>\<open>filterJobs\<close>: the value it passes to \<^verbatim>\<open>setFilteredJobs\<close>, as a function of the
  three pieces of state it reads. A string is truthy when it is not empty.
\<close>

definition filterJobs :: "'u env \<Rightarrow> Job list \<Rightarrow> string \<Rightarrow> string \<Rightarrow> Job list" where
  "filterJobs E jobs searchText selectedJobType =
     (let filtered = jobs;
          filtered = (if searchText \<noteq> [] then filter (matchesSearch E searchText) filtered
                      else filtered);
          filtered = (if selectedJobType \<noteq> []
                      then filter (\<lambda>job. Job.job_type job = selectedJobType) filtered
                      else filtered)
      in filtered)"

section \<open>Job directory: fetching and applying\<close>

datatype ViewMode = list_mode | calendar_mode | map_mode

record JobsScreen =
  jobs :: "Job list"
  loading :: bool
  viewMode :: ViewMode
  searchText :: string
  selectedJobType :: string
  filteredJobs :: "Job list"

text \<open>
  \<^verbatim>\<open>fetchJobs\<close>. The effect hook that depends on \<^verbatim>\<open>jobs\<close> runs \<^verbatim>\<open>filterJobs\<close> again after
  \<^verbatim>\<open>setJobs\<close>.
\<close>

definition fetchJobs ::
  "'u env \<Rightarrow> JobsScreen \<times> 'a Device_scheme \<Rightarrow> JobsScreen \<times> 'a Device_scheme" where
  "fetchJobs E = (\<lambda>(st, dev).
     let failed = (\<lambda>d. alert ''Error'' ''Failed to load jobs. Please try again.'' d) in
     case getItem E ''access_token'' dev of
       Inl _ \<Rightarrow> (st\<lparr>JobsScreen.loading := False\<rparr>, failed dev)
     | Inr token \<Rightarrow>
         (let url = EXPO_PUBLIC_BACKEND_URL E @ ''/api/jobs'';
              dev1 = sent (Get url (bearer token)) dev
          in (case axios_get_jobs E url (bearer token) of
                Inl _ \<Rightarrow> (st\<lparr>JobsScreen.loading := False\<rparr>, failed dev1)
              | Inr data \<Rightarrow>
                  (st\<lparr>jobs := data,
                      filteredJobs := filterJobs E data (searchText st) (selectedJobType st),
                      JobsScreen.loading := False\<rparr>, dev1))))"

text \<open>\<^verbatim>\<open>applyToJob\<close>; the refresh that follows a success is run to its end.\<close>

definition applyToJob ::
  "'u env \<Rightarrow> string \<Rightarrow> JobsScreen \<times> 'a Device_scheme \<Rightarrow> JobsScreen \<times> 'a Device_scheme" where
  "applyToJob E jobId = (\<lambda>(st, dev).
     let fallback = ''Failed to apply to job. Please try again.'' in
     case getItem E ''access_token'' dev of
       Inl _ \<Rightarrow> (st, alert ''Error'' fallback dev)
     | Inr token \<Rightarrow>
         (let url = EXPO_PUBLIC_BACKEND_URL E @ ''/api/jobs/'' @ jobId @ ''/apply'';
              body = [(''message'', JStr ''I am interested in this position.'')];
              dev1 = sent (Post url body (bearer token)) dev
          in (case axios_post E url body (bearer token) of
                Inl error \<Rightarrow> (st, alert ''Error'' (orElse (detail error) fallback) dev1)
              | Inr _ \<Rightarrow>
                  fetchJobs E
                    (st, alert ''Success'' ''Your application has been submitted!'' dev1))))"

section \<open>Job posting: the form and its submit handler\<close>

text \<open>The interface \<^verbatim>\<open>User\<close> of JobPostingScreen.tsx; \<open>user_id\<close> is its field \<^verbatim>\<open>id\<close>.\<close>

record User =
  user_id :: string
  office_address :: "string option"
  office_city :: "string option"
  office_state :: "string option"
  office_zip :: "string option"
  office_latitude :: "rat option"
  office_longitude :: "rat option"

text \<open>
  The values of the form. The interface \<^verbatim>\<open>JobFormData\<close> types the text fields as
  strings, but \<^verbatim>\<open>useForm\<close> gets default values only for the four location fields and
  the recurrence fields, so a text field that was never touched is undefined: None
  here.
\<close>

record JobFormData =
  title :: "string option"
  job_type :: "string option"
  description :: "string option"
  hourly_rate :: "string option"
  location_address :: string
  location_city :: string
  location_state :: string
  location_zip :: string
  job_date :: "string option"
  start_time :: "string option"
  end_time :: "string option"
  is_recurring :: bool
  recurring_pattern :: "string option"
  recurring_days :: "string list option"
  recurring_end_date :: "string option"

record JobPostingScreen =
  loading :: bool
  showRecurringOptions :: bool
  form :: JobFormData
  errors :: "(string \<times> string) list"

definition defaultValues :: "User \<Rightarrow> JobFormData" where
  "defaultValues user =
     \<lparr>title = None, job_type = None, description = None, hourly_rate = None,
      location_address = orElse (User.office_address user) [],
      location_city = orElse (User.office_city user) [],
      location_state = orElse (User.office_state user) [],
      location_zip = orElse (User.office_zip user) [],
      job_date = None, start_time = None, end_time = None,
      is_recurring = False,
      recurring_pattern = Some ''weekly'',
      recurring_days = Some [],
      recurring_end_date = None\<rparr>"

text \<open>
  The properties of the form record, as the spread \<^verbatim>\<open>...data\<close> copies them. A value
  that is undefined gives no property.
\<close>

definition optional :: "string \<Rightarrow> ('a \<Rightarrow> jsval) \<Rightarrow> 'a option \<Rightarrow> jsobj" where
  "optional k f v = (case v of None \<Rightarrow> [] | Some x \<Rightarrow> [(k, f x)])"

definition formProperties :: "JobFormData \<Rightarrow> jsobj" where
  "formProperties data =
     optional ''title'' JStr (JobFormData.title data)
     @ optional ''job_type'' JStr (JobFormData.job_type data)
     @ optional ''description'' JStr (JobFormData.description data)
     @ optional ''hourly_rate'' JStr (JobFormData.hourly_rate data)
     @ [(''location_address'', JStr (JobFormData.location_address data)),
        (''location_city'', JStr (JobFormData.location_city data)),
        (''location_state'', JStr (JobFormData.location_state data)),
        (''location_zip'', JStr (JobFormData.location_zip data))]
     @ optional ''job_date'' JStr (JobFormData.job_date data)
     @ optional ''start_time'' JStr (JobFormData.start_time data)
     @ optional ''end_time'' JStr (JobFormData.end_time data)
     @ [(''is_recurring'', JBool (is_recurring data))]
     @ optional ''recurring_pattern'' JStr (recurring_pattern data)
     @ optional ''recurring_days'' (\<lambda>ds. JArr (map JStr ds)) (recurring_days data)
     @ optional ''recurring_end_date'' JStr (recurring_end_date data)"

text \<open>\<^verbatim>\<open>user.office_latitude || 0\<close>.\<close>

definition orZero :: "rat option \<Rightarrow> rat" where
  "orZero a = (case a of None \<Rightarrow> 0 | Some x \<Rightarrow> x)"

text \<open>
  The object \<^verbatim>\<open>jobData\<close> of \<^verbatim>\<open>onSubmit\<close>; None when one of the two date conversions
  throws.
\<close>

definition jobData :: "'u env \<Rightarrow> User \<Rightarrow> JobFormData \<Rightarrow> jsobj option" where
  "jobData E user data =
     (case toISOString E (toString (JobFormData.job_date data) @ ''T00:00:00.000Z'') of
        None \<Rightarrow> None
      | Some jd \<Rightarrow>
          (case (if truthy (recurring_end_date data)
                 then map_option JStr
                        (toISOString E (the (recurring_end_date data) @ ''T00:00:00.000Z''))
                 else Some JUndefined) of
             None \<Rightarrow> None
           | Some ed \<Rightarrow>
               Some (AList.update ''recurring_end_date'' ed
                    (AList.update ''location_longitude'' (JNum (Num (orZero (office_longitude user))))
                    (AList.update ''location_latitude'' (JNum (Num (orZero (office_latitude user))))
                    (AList.update ''job_date'' (JStr jd)
                    (AList.update ''hourly_rate''
                       (JNum (parseFloat E (toString (JobFormData.hourly_rate data))))
                    (formProperties data))))))))"





section \<open>Root shell: session state\<close>

text \<open>
  The state of the root component \<^verbatim>\<open>Index\<close> together with the device. \<open>user\<close> is None
  while the state holds null.
\<close>

record 'u Index = Device +
  isAuthenticated :: bool
  user :: "'u option"
  loading :: bool

definition checkAuthStatus :: "'u env \<Rightarrow> 'u Index \<Rightarrow> 'u Index" where
  "checkAuthStatus E w =
     (let finish = (\<lambda>s. s\<lparr>Index.loading := False\<rparr>) in
      case getItem E ''access_token'' w of
        Inl _ \<Rightarrow> finish w
      | Inr token \<Rightarrow>
          (case getItem E ''user_data'' w of
             Inl _ \<Rightarrow> finish w
           | Inr userData \<Rightarrow>
               if truthy token \<and> truthy userData then
                 (case JSON_parse E (the userData) of
                    None \<Rightarrow> finish w
                  | Some parsedUser \<Rightarrow>
                      finish (w\<lparr>user := Some parsedUser, isAuthenticated := True\<rparr>))
               else finish w))"

definition handleLogin :: "'u env \<Rightarrow> string \<Rightarrow> 'u \<Rightarrow> 'u Index \<Rightarrow> 'u Index" where
  "handleLogin E token userData w =
     (let failed = (\<lambda>s. alert ''Error'' ''Failed to save login information'' s) in
      case setItem E ''access_token'' token w of
        Inl _ \<Rightarrow> failed w
      | Inr w1 \<Rightarrow>
          (case setItem E ''user_data'' (JSON_stringify E userData) w1 of
             Inl _ \<Rightarrow> failed w1
           | Inr w2 \<Rightarrow> w2\<lparr>user := Some userData, isAuthenticated := True\<rparr>))"

section \<open>Auth flow: the submit handler of AuthScreen\<close>

datatype portal = client | professional

definition portalName :: "portal \<Rightarrow> string" where
  "portalName p = (case p of client \<Rightarrow> ''client'' | professional \<Rightarrow> ''professional'')"

record AuthFormData =
  email :: string
  password :: string
  confirmPassword :: "string option"
  first_name :: "string option"
  last_name :: "string option"
  phone :: "string option"
  role :: "string option"
  profession_type :: "string option"
  license_number :: "string option"
  experience_years :: "string option"
  dental_office_name :: "string option"
  office_address :: "string option"
  office_city :: "string option"
  office_state :: "string option"
  office_zip :: "string option"

record AuthScreen =
  isLogin :: bool
  activePortal :: portal
  loading :: bool

text \<open>The properties of the form record, as the spread \<^verbatim>\<open>...data\<close> copies them.\<close>

definition authProperties :: "AuthFormData \<Rightarrow> jsobj" where
  "authProperties data =
     [(''email'', JStr (email data)), (''password'', JStr (password data))]
     @ optional ''confirmPassword'' JStr (confirmPassword data)
     @ optional ''first_name'' JStr (first_name data)
     @ optional ''last_name'' JStr (last_name data)
     @ optional ''phone'' JStr (phone data)
     @ optional ''role'' JStr (role data)
     @ optional ''profession_type'' JStr (profession_type data)
     @ optional ''license_number'' JStr (license_number data)
     @ optional ''experience_years'' JStr (experience_years data)
     @ optional ''dental_office_name'' JStr (dental_office_name data)
     @ optional ''office_address'' JStr (AuthFormData.office_address data)
     @ optional ''office_city'' JStr (AuthFormData.office_city data)
     @ optional ''office_state'' JStr (AuthFormData.office_state data)
     @ optional ''office_zip'' JStr (AuthFormData.office_zip data)"

text \<open>The constants \<^verbatim>\<open>endpoint\<close> and \<^verbatim>\<open>requestData\<close> of the handler.\<close>

definition endpoint :: "AuthScreen \<Rightarrow> string" where
  "endpoint a = (if isLogin a then ''/auth/login'' else ''/auth/register'')"

definition requestData :: "'u env \<Rightarrow> AuthScreen \<Rightarrow> AuthFormData \<Rightarrow> jsobj" where
  "requestData E a data =
     (if isLogin a
      then [(''email'', JStr (email data)), (''password'', JStr (password data))]
      else AList.update ''experience_years''
             (if truthy (experience_years data)
              then JNum (parseInt E (the (experience_years data)))
              else JUndefined)
          (AList.update ''role'' (JStr (portalName (activePortal a)))
          (authProperties data)))"

text \<open>
  \<^verbatim>\<open>onSubmit\<close> of AuthScreen, named \<open>authSubmit\<close> here since the job posting screen has
  an \<^verbatim>\<open>onSubmit\<close> of its own. \<open>onLogin\<close> is the callback of the component's props; the
  root component passes \<open>handleLogin\<close>, which catches its own errors, and the callback
  is taken to return normally. When the request succeeds with data null or undefined,
  reading \<^verbatim>\<open>response.data.access_token\<close> throws a TypeError, which has no response: the
  catch block alerts the fallback text.
\<close>

definition authSubmit ::
  "'u env \<Rightarrow> (string \<Rightarrow> 'u \<Rightarrow> 'a Device_scheme \<Rightarrow> 'a Device_scheme) \<Rightarrow> AuthFormData
     \<Rightarrow> AuthScreen \<times> 'a Device_scheme \<Rightarrow> AuthScreen \<times> 'a Device_scheme" where
  "authSubmit E onLogin data = (\<lambda>(a, w).
     if \<not> isLogin a \<and> Some (password data) \<noteq> confirmPassword data
     then (a, alert ''Error'' ''Passwords do not match'' w)
     else
       let fallback = ''An error occurred. Please try again.'';
           finish = (\<lambda>s. s\<lparr>AuthScreen.loading := False\<rparr>);
           a = a\<lparr>AuthScreen.loading := True\<rparr>;
           url = EXPO_PUBLIC_BACKEND_URL E @ ''/api'' @ endpoint a;
           w1 = sent (Post url (requestData E a data) []) w
       in (case axios_post E url (requestData E a data) [] of
             Inl error \<Rightarrow> (finish a, alert ''Error'' (orElse (detail error) fallback) w1)
           | Inr None \<Rightarrow> (finish a, alert ''Error'' fallback w1)
           | Inr (Some response) \<Rightarrow>
               if truthy (access_token response) then
                 (let headers = bearer (access_token response);
                      me = EXPO_PUBLIC_BACKEND_URL E @ ''/api/auth/me'';
                      w2 = sent (Get me headers) w1
                  in (case axios_get_user E me headers of
                        Inl error \<Rightarrow>
                          (finish a, alert ''Error'' (orElse (detail error) fallback) w2)
                      | Inr userData \<Rightarrow>
                          (finish a,
                           alert ''Success''
                             (if isLogin a then ''Welcome back!''
                              else ''Account created successfully!'')
                             (onLogin (the (access_token response)) userData w2))))
               else (finish a, w1)))"

section \<open>Example data\<close>

text \<open>The two jobs of the specification's filtering example, and a small world around them.\<close>

definition hygienistAM :: Job where
  "hygienistAM =
     \<lparr>job_id = ''j1'', Job.title = ''Hygienist AM'', Job.job_type = ''dental_hygienist'',
      Job.description = None, Job.hourly_rate = 45, Job.location_address = ''1 Main St'',
      Job.location_city = ''Austin'', Job.location_state = ''TX'', Job.location_zip = ''78701'',
      Job.job_date = ''2025-03-01'', Job.start_time = ''08:00'', Job.end_time = ''12:00'',
      created_at = ''2025-02-01'', applications_count = 0\<rparr>"

definition frontDeskPM :: Job where
  "frontDeskPM =
     \<lparr>job_id = ''j2'', Job.title = ''Front Desk PM'', Job.job_type = ''front_desk'',
      Job.description = None, Job.hourly_rate = 30, Job.location_address = ''2 Elm St'',
      Job.location_city = ''Dallas'', Job.location_state = ''TX'', Job.location_zip = ''75201'',
      Job.job_date = ''2025-03-02'', Job.start_time = ''13:00'', Job.end_time = ''17:00'',
      created_at = ''2025-02-02'', applications_count = 3\<rparr>"

text \<open>
  The lower-casing of the example environment: it folds the letters A to Z and leaves
  every other character, which is what the engine does on ASCII text.
\<close>

definition asciiLowerChar :: "char \<Rightarrow> char" where
  "asciiLowerChar c =
     (case map_of (zip ''ABCDEFGHIJKLMNOPQRSTUVWXYZ'' ''abcdefghijklmnopqrstuvwxyz'') c of
        Some l \<Rightarrow> l
      | None \<Rightarrow> c)"

text \<open>
  An example environment. The server answers every POST with the token \<^verbatim>\<open>tok-1\<close> and
  every profile request with the empty object, the only profile of this world; storage
  never rejects. The engine functions are given by their values on the texts that the
  examples use: the two dates convert to themselves and every other text is an invalid
  date, \<^verbatim>\<open>45.50\<close> and \<^verbatim>\<open>7\<close> parse to their values, and \<^verbatim>\<open>abc\<close> parses to NaN.
\<close>

definition exampleEnv :: "jsobj env" where
  "exampleEnv =
     \<lparr>EXPO_PUBLIC_BACKEND_URL = ''https://api.test'',
      axios_post = (\<lambda>url body headers. Inr (Some \<lparr>access_token = Some ''tok-1''\<rparr>)),
      axios_get_user = (\<lambda>url headers. Inr []),
      axios_get_jobs = (\<lambda>url headers. Inr []),
      getItem_rejects = (\<lambda>k. False),
      setItem_rejects = (\<lambda>k. False),
      JSON_parse = (\<lambda>s. if s = ''{}'' then Some [] else None),
      JSON_stringify = (\<lambda>u. ''{}''),
      toISOString = (\<lambda>s. if s = ''2025-03-01T00:00:00.000Z'' \<or> s = ''2025-06-30T00:00:00.000Z''
                          then Some s else None),
      toLowerCase = map asciiLowerChar,
      parseFloat = (\<lambda>s. if s = ''45.50'' then Num (91 / 2) else NaN),
      parseInt = (\<lambda>s. if s = ''7'' then Num 7 else NaN)\<rparr>"

definition index0 :: "jsobj Index" where
  "index0 = \<lparr>storage = Map.empty, events = [], isAuthenticated = False, user = None,
             Index.loading = True\<rparr>"

definition loginScreen :: AuthScreen where
  "loginScreen = \<lparr>isLogin = True, activePortal = professional, AuthScreen.loading = False\<rparr>"

definition registerScreen :: AuthScreen where
  "registerScreen = \<lparr>isLogin = False, activePortal = professional, AuthScreen.loading = False\<rparr>"

definition registration :: AuthFormData where
  "registration =
     \<lparr>email = ''ann@example.com'', password = ''abc123'', confirmPassword = Some ''abc123'',
      first_name = Some ''Ann'', last_name = Some ''Lee'', phone = None, role = None,
      profession_type = Some ''dentist'', license_number = None, experience_years = Some ''7'',
      dental_office_name = None, AuthFormData.office_address = None,
      AuthFormData.office_city = None, AuthFormData.office_state = None,
      AuthFormData.office_zip = None\<rparr>"

definition device0 :: Device where
  "device0 = \<lparr>storage = [''access_token'' \<mapsto> ''tok-1''], events = []\<rparr>"

definition jobsScreen0 :: JobsScreen where
  "jobsScreen0 =
     \<lparr>jobs = [hygienistAM, frontDeskPM], JobsScreen.loading = False, viewMode = list_mode,
      searchText = [], selectedJobType = [], filteredJobs = [hygienistAM, frontDeskPM]\<rparr>"

definition officeUser :: User where
  "officeUser =
     \<lparr>user_id = ''u7'', User.office_address = Some ''9 Oak Ave'', User.office_city = Some ''Austin'',
      User.office_state = Some ''TX'', User.office_zip = Some ''78701'',
      office_latitude = None, office_longitude = None\<rparr>"

text \<open>The job form with its defaults and the required fields filled in.\<close>

definition filledForm :: JobFormData where
  "filledForm =
     (defaultValues officeUser)
       \<lparr>JobFormData.title := Some ''Weekend hygienist'',
        JobFormData.job_type := Some ''dental_hygienist'',
        JobFormData.hourly_rate := Some ''45.50'', JobFormData.job_date := Some ''2025-03-01'',
        JobFormData.start_time := Some ''08:00'', JobFormData.end_time := Some ''12:00''\<rparr>"


text \<open>
  Three variants of the example environment: the POST succeeds with data that has no
  \<^verbatim>\<open>access_token\<close>, the POST succeeds with data null, and the profile request fails.
\<close>

definition noTokenEnv :: "jsobj env" where
  "noTokenEnv = exampleEnv\<lparr>axios_post := \<lambda>url body headers. Inr (Some \<lparr>access_token = None\<rparr>)\<rparr>"

definition nullDataEnv :: "jsobj env" where
  "nullDataEnv = exampleEnv\<lparr>axios_post := \<lambda>url body headers. Inr None\<rparr>"

definition noProfileEnv :: "jsobj env" where
  "noProfileEnv = exampleEnv\<lparr>axios_get_user := \<lambda>url headers. Inl (HttpError None)\<rparr>"

section \<open>Properties of the filter\<close>

text \<open>\<open>str_includes\<close> is the substring test: some text before, the piece, some text after.\<close>

lemma str_includes_iff: "str_includes s t \<longleftrightarrow> (\<exists>ps ss. s = ps @ t @ ss)"
proof (induction s)
  case Nil
  show ?case by simp
next
  case (Cons c cs)
  have "(\<exists>ps ss. c # cs = ps @ t @ ss) \<longleftrightarrow>
        prefix t (c # cs) \<or> (\<exists>ps ss. cs = ps @ t @ ss)"
  proof
    assume "\<exists>ps ss. c # cs = ps @ t @ ss"
    then obtain ps ss where eq: "c # cs = ps @ t @ ss" by blast
    show "prefix t (c # cs) \<or> (\<exists>ps ss. cs = ps @ t @ ss)"
    proof (cases ps)
      case Nil
      with eq show ?thesis by (auto simp add: prefix_def)
    next
      case (Cons p ps')
      with eq have "cs = ps' @ t @ ss" by simp
      then show ?thesis by blast
    qed
  next
    assume "prefix t (c # cs) \<or> (\<exists>ps ss. cs = ps @ t @ ss)"
    then show "\<exists>ps ss. c # cs = ps @ t @ ss"
    proof
      assume "prefix t (c # cs)"
      then obtain ss where "c # cs = t @ ss" by (auto simp add: prefix_def)
      then have "c # cs = [] @ t @ ss" by simp
      then show ?thesis by blast
    next
      assume "\<exists>ps ss. cs = ps @ t @ ss"
      then obtain ps ss where "cs = ps @ t @ ss" by blast
      then have "c # cs = (c # ps) @ t @ ss" by simp
      then show ?thesis by blast
    qed
  qed
  with Cons.IH show ?case by simp
qed

lemma matchesSearch_iff:
  "matchesSearch E t job \<longleftrightarrow>
     (\<exists>ps ss. toLowerCase E (Job.title job) = ps @ toLowerCase E t @ ss) \<or>
     (\<exists>ps ss. toLowerCase E (Job.location_city job) = ps @ toLowerCase E t @ ss) \<or>
     (\<exists>ps ss. toLowerCase E (Job.location_state job) = ps @ toLowerCase E t @ ss)"
  by (simp add: matchesSearch_def str_includes_iff)

lemma matchesSearch_lower:
  "toLowerCase E t' = toLowerCase E t \<Longrightarrow> matchesSearch E t' = matchesSearch E t"
  by (rule ext) (simp add: matchesSearch_def)

lemma filterJobs_as_filter:
  "filterJobs E J t c =
     filter (\<lambda>job. (t = [] \<or> matchesSearch E t job) \<and> (c = [] \<or> Job.job_type job = c)) J"
  by (simp add: filterJobs_def Let_def)

lemma toLowerCase_exampleEnv: "toLowerCase exampleEnv = map asciiLowerChar"
  by (simp add: exampleEnv_def)

lemma example_filter:
  "filterJobs exampleEnv [hygienistAM, frontDeskPM] ''desk'' [] = [frontDeskPM]"
  by (simp add: filterJobs_def matchesSearch_def hygienistAM_def frontDeskPM_def
      toLowerCase_exampleEnv asciiLowerChar_def)

text \<open>
  Claim C1. For every job list, search text and category, \<open>filterJobs\<close> returns a
  subsequence of the job list (so the relative order is kept and no foreign element
  appears). Every returned job satisfies both predicates: unless the search text is
  empty, the lower-cased search text occurs as a contiguous piece of the lower-cased
  title, city or state; and unless the category is empty, the job type equals the
  category. Conversely every job of the list that satisfies both is returned. The match
  ignores the case of the search text: two non-empty texts with the same lower-casing
  give the same result.
\<close>

theorem filterJobs_sound:
  "subseq (filterJobs E J t c) J \<and>
   set (filterJobs E J t c) \<subseteq> set J \<and>
   (\<forall>job \<in> set (filterJobs E J t c).
      (t = [] \<or>
       (\<exists>ps ss. toLowerCase E (Job.title job) = ps @ toLowerCase E t @ ss) \<or>
       (\<exists>ps ss. toLowerCase E (Job.location_city job) = ps @ toLowerCase E t @ ss) \<or>
       (\<exists>ps ss. toLowerCase E (Job.location_state job) = ps @ toLowerCase E t @ ss)) \<and>
      (c = [] \<or> Job.job_type job = c)) \<and>
   (\<forall>job \<in> set J.
      (t = [] \<or>
       (\<exists>ps ss. toLowerCase E (Job.title job) = ps @ toLowerCase E t @ ss) \<or>
       (\<exists>ps ss. toLowerCase E (Job.location_city job) = ps @ toLowerCase E t @ ss) \<or>
       (\<exists>ps ss. toLowerCase E (Job.location_state job) = ps @ toLowerCase E t @ ss)) \<and>
      (c = [] \<or> Job.job_type job = c) \<longrightarrow> job \<in> set (filterJobs E J t c)) \<and>
   (\<forall>t'. t \<noteq> [] \<and> t' \<noteq> [] \<and> toLowerCase E t' = toLowerCase E t \<longrightarrow>
      filterJobs E J t' c = filterJobs E J t c)"
proof (intro conjI)
  show "subseq (filterJobs E J t c) J"
    by (simp add: filterJobs_as_filter)
  show "set (filterJobs E J t c) \<subseteq> set J"
    by (simp add: filterJobs_as_filter)
  show "\<forall>job \<in> set (filterJobs E J t c).
      (t = [] \<or>
       (\<exists>ps ss. toLowerCase E (Job.title job) = ps @ toLowerCase E t @ ss) \<or>
       (\<exists>ps ss. toLowerCase E (Job.location_city job) = ps @ toLowerCase E t @ ss) \<or>
       (\<exists>ps ss. toLowerCase E (Job.location_state job) = ps @ toLowerCase E t @ ss)) \<and>
      (c = [] \<or> Job.job_type job = c)"
    by (simp add: filterJobs_as_filter matchesSearch_iff)
  show "\<forall>job \<in> set J.
      (t = [] \<or>
       (\<exists>ps ss. toLowerCase E (Job.title job) = ps @ toLowerCase E t @ ss) \<or>
       (\<exists>ps ss. toLowerCase E (Job.location_city job) = ps @ toLowerCase E t @ ss) \<or>
       (\<exists>ps ss. toLowerCase E (Job.location_state job) = ps @ toLowerCase E t @ ss)) \<and>
      (c = [] \<or> Job.job_type job = c) \<longrightarrow> job \<in> set (filterJobs E J t c)"
    by (simp add: filterJobs_as_filter matchesSearch_iff)
  show "\<forall>t'. t \<noteq> [] \<and> t' \<noteq> [] \<and> toLowerCase E t' = toLowerCase E t \<longrightarrow>
      filterJobs E J t' c = filterJobs E J t c"
  proof (intro allI impI)
    fix t'
    assume h: "t \<noteq> [] \<and> t' \<noteq> [] \<and> toLowerCase E t' = toLowerCase E t"
    then have m: "matchesSearch E t' = matchesSearch E t"
      by (intro matchesSearch_lower) blast
    from h show "filterJobs E J t' c = filterJobs E J t c"
      by (simp add: filterJobs_as_filter m)
  qed
qed

text \<open>
  The example of the specification: searching \<^verbatim>\<open>desk\<close> with no category keeps the front
  desk job and drops the hygienist job; the kept job matches in its title, and the
  search \<^verbatim>\<open>DESK\<close> gives the same result.
\<close>

theorem filterJobs_sound_witness:
  "filterJobs exampleEnv [hygienistAM, frontDeskPM] ''desk'' [] = [frontDeskPM] \<and>
   toLowerCase exampleEnv (Job.title frontDeskPM) =
     ''front '' @ toLowerCase exampleEnv ''desk'' @ '' pm'' \<and>
   filterJobs exampleEnv [hygienistAM, frontDeskPM] ''DESK'' [] = [frontDeskPM] \<and>
   (''desk'' = [] \<or>
    (\<exists>ps ss. toLowerCase exampleEnv (Job.title frontDeskPM) =
       ps @ toLowerCase exampleEnv ''desk'' @ ss) \<or>
    (\<exists>ps ss. toLowerCase exampleEnv (Job.location_city frontDeskPM) =
       ps @ toLowerCase exampleEnv ''desk'' @ ss) \<or>
    (\<exists>ps ss. toLowerCase exampleEnv (Job.location_state frontDeskPM) =
       ps @ toLowerCase exampleEnv ''desk'' @ ss))"
proof -
  have same: "toLowerCase exampleEnv ''DESK'' = toLowerCase exampleEnv ''desk''"
    by (simp add: toLowerCase_exampleEnv asciiLowerChar_def)
  have title: "toLowerCase exampleEnv (Job.title frontDeskPM) =
     ''front '' @ toLowerCase exampleEnv ''desk'' @ '' pm''"
    by (simp add: toLowerCase_exampleEnv asciiLowerChar_def frontDeskPM_def)
  note insensitive = filterJobs_sound [of exampleEnv "[hygienistAM, frontDeskPM]" "''desk''" "[]",
      THEN conjunct2, THEN conjunct2, THEN conjunct2, THEN conjunct2, rule_format, of "''DESK''"]
  have eq: "filterJobs exampleEnv [hygienistAM, frontDeskPM] ''DESK'' [] =
        filterJobs exampleEnv [hygienistAM, frontDeskPM] ''desk'' []"
    by (rule insensitive) (intro conjI, simp, simp, rule same)
  have upper: "filterJobs exampleEnv [hygienistAM, frontDeskPM] ''DESK'' [] = [frontDeskPM]"
    by (rule trans [OF eq example_filter])
  have mem: "frontDeskPM \<in> set (filterJobs exampleEnv [hygienistAM, frontDeskPM] ''desk'' [])"
    by (simp only: example_filter list.set insertI1)
  note kept = filterJobs_sound [of exampleEnv "[hygienistAM, frontDeskPM]" "''desk''" "[]",
      THEN conjunct2, THEN conjunct2, THEN conjunct1, rule_format, OF mem, THEN conjunct1]
  show ?thesis
    by (intro conjI) (rule example_filter, rule title, rule upper, rule kept)
qed

text \<open>
  Claim C7. With an empty search text and the empty category, \<open>filterJobs\<close> returns the
  job list as it is.
\<close>

theorem filterJobs_identity: "filterJobs E J [] [] = J"
  by (simp add: filterJobs_def)

section \<open>Properties of the auth flow\<close>

lemma endpoint_loading [simp]: "endpoint (a\<lparr>AuthScreen.loading := b\<rparr>) = endpoint a"
  by (simp add: endpoint_def)

lemma requestData_loading [simp]:
  "requestData E (a\<lparr>AuthScreen.loading := b\<rparr>) data = requestData E a data"
  by (simp add: requestData_def)

lemma requestData_login:
  "requestData E loginScreen registration =
     [(''email'', JStr ''ann@example.com''), (''password'', JStr ''abc123'')]"
  by (simp add: requestData_def loginScreen_def registration_def)

lemma loginScreen_simps:
  "endpoint loginScreen = ''/auth/login''"
  "loginScreen\<lparr>AuthScreen.loading := False\<rparr> = loginScreen"
  "events index0 = []"
  by (simp_all add: endpoint_def loginScreen_def index0_def)

lemma example_urls:
  "EXPO_PUBLIC_BACKEND_URL exampleEnv = ''https://api.test''"
  "EXPO_PUBLIC_BACKEND_URL noTokenEnv = ''https://api.test''"
  "EXPO_PUBLIC_BACKEND_URL nullDataEnv = ''https://api.test''"
  "EXPO_PUBLIC_BACKEND_URL noProfileEnv = ''https://api.test''"
  by (simp_all add: exampleEnv_def noTokenEnv_def nullDataEnv_def noProfileEnv_def)

lemma handleLogin_events:
  "events (handleLogin E t u w) =
     events w @ (if setItem_rejects E ''access_token'' \<or> setItem_rejects E ''user_data''
                 then [Alert ''Error'' ''Failed to save login information''] else [])"
  by (simp add: handleLogin_def setItem_def alert_def)

lemma map_of_optional:
  "map_of (optional k f v) k' = (if k' = k then map_option f v else None)"
  by (simp add: optional_def split: option.split)

lemma map_of_authProperties_confirmPassword:
  "map_of (authProperties data) ''confirmPassword'' = map_option JStr (confirmPassword data)"
  by (simp add: authProperties_def map_add_def map_of_optional split: option.split)

text \<open>
  Claim C4. In register mode, when password and confirmPassword differ, the submit
  handler only raises the alert \<^verbatim>\<open>Passwords do not match\<close>: no request is recorded,
  the callback is not applied and nothing else changes.
\<close>

theorem authSubmit_mismatch:
  "\<not> isLogin a \<Longrightarrow> Some (password data) \<noteq> confirmPassword data \<Longrightarrow>
   authSubmit E onLogin data (a, w) =
     (a, w\<lparr>events := events w @ [Alert ''Error'' ''Passwords do not match'']\<rparr>)"
  by (simp add: authSubmit_def alert_def)

text \<open>The registration with password \<^verbatim>\<open>abc123\<close> and confirmation \<^verbatim>\<open>abc124\<close>.\<close>

theorem authSubmit_mismatch_witness:
  "authSubmit exampleEnv (handleLogin exampleEnv)
     (registration\<lparr>confirmPassword := Some ''abc124''\<rparr>) (registerScreen, index0) =
     (registerScreen, index0\<lparr>events := [Alert ''Error'' ''Passwords do not match'']\<rparr>)"
  using authSubmit_mismatch [of registerScreen "registration\<lparr>confirmPassword := Some ''abc124''\<rparr>"
      exampleEnv "handleLogin exampleEnv" index0]
  by (simp add: registerScreen_def registration_def index0_def)

text \<open>
  Claim C8, as the code has it. When the login or registration request succeeds and
  its data is a value that has no \<^verbatim>\<open>access_token\<close>, the handler ends after that one
  request: no request to \<^verbatim>\<open>/auth/me\<close>, no alert, the callback is not applied, and only
  the loading flag is put back to false. When the data is null or undefined, reading
  the token throws: there is still no request to \<^verbatim>\<open>/auth/me\<close> and the callback is not
  applied, but the catch block raises the alert \<^verbatim>\<open>An error occurred. Please try again.\<close>
\<close>

theorem authSubmit_no_token:
  assumes "isLogin a \<or> Some (password data) = confirmPassword data"
  shows "(\<forall>response.
            axios_post E (EXPO_PUBLIC_BACKEND_URL E @ ''/api'' @ endpoint a)
              (requestData E a data) [] = Inr (Some response) \<and>
            access_token response = None \<longrightarrow>
            authSubmit E onLogin data (a, w) =
              (a\<lparr>AuthScreen.loading := False\<rparr>,
               w\<lparr>events := events w @
                  [Post (EXPO_PUBLIC_BACKEND_URL E @ ''/api'' @ endpoint a)
                     (requestData E a data) []]\<rparr>)) \<and>
         (axios_post E (EXPO_PUBLIC_BACKEND_URL E @ ''/api'' @ endpoint a)
              (requestData E a data) [] = Inr None \<longrightarrow>
            authSubmit E onLogin data (a, w) =
              (a\<lparr>AuthScreen.loading := False\<rparr>,
               w\<lparr>events := events w @
                  [Post (EXPO_PUBLIC_BACKEND_URL E @ ''/api'' @ endpoint a)
                     (requestData E a data) [],
                   Alert ''Error'' ''An error occurred. Please try again.'']\<rparr>))"
  using assms by (auto simp add: authSubmit_def Let_def sent_def alert_def truthy_def)

text \<open>A login answered with data that has no token.\<close>

theorem authSubmit_no_token_witness:
  "authSubmit noTokenEnv (handleLogin noTokenEnv) registration (loginScreen, index0) =
     (loginScreen,
      index0\<lparr>events := [Post ''https://api.test/api/auth/login''
         [(''email'', JStr ''ann@example.com''), (''password'', JStr ''abc123'')] []]\<rparr>)"
proof -
  have pass: "isLogin loginScreen \<or> Some (password registration) = confirmPassword registration"
    by (simp add: loginScreen_def)
  have post: "axios_post noTokenEnv (EXPO_PUBLIC_BACKEND_URL noTokenEnv @ ''/api'' @ endpoint loginScreen)
      (requestData noTokenEnv loginScreen registration) [] = Inr (Some \<lparr>access_token = None\<rparr>) \<and>
      access_token \<lparr>access_token = None\<rparr> = None"
    by (simp add: noTokenEnv_def)
  note silent = authSubmit_no_token [OF pass, of noTokenEnv "handleLogin noTokenEnv" index0,
      THEN conjunct1, rule_format, OF post]
  then show ?thesis
    by (simp add: requestData_login loginScreen_simps example_urls)
qed

text \<open>
  Claim C8 as stated fails. A login answered with data null sends no profile request
  and establishes no session, but it does show an error message.
\<close>

theorem authSubmit_no_token_counterexample:
  "axios_post nullDataEnv ''https://api.test/api/auth/login''
     [(''email'', JStr ''ann@example.com''), (''password'', JStr ''abc123'')] [] = Inr None \<and>
   events (snd (authSubmit nullDataEnv (handleLogin nullDataEnv) registration
     (loginScreen, index0))) =
     [Post ''https://api.test/api/auth/login''
        [(''email'', JStr ''ann@example.com''), (''password'', JStr ''abc123'')] [],
      Alert ''Error'' ''An error occurred. Please try again.'']"
proof -
  have post: "axios_post nullDataEnv ''https://api.test/api/auth/login''
     [(''email'', JStr ''ann@example.com''), (''password'', JStr ''abc123'')] [] = Inr None"
    by (simp add: nullDataEnv_def)
  have "isLogin loginScreen" by (simp add: loginScreen_def)
  with post have "events (snd (authSubmit nullDataEnv (handleLogin nullDataEnv) registration
     (loginScreen, index0))) =
     [Post ''https://api.test/api/auth/login''
        [(''email'', JStr ''ann@example.com''), (''password'', JStr ''abc123'')] [],
      Alert ''Error'' ''An error occurred. Please try again.'']"
    by (simp add: authSubmit_def Let_def sent_def alert_def requestData_login loginScreen_simps
        example_urls)
  with post show ?thesis by (rule conjI)
qed

text \<open>
  Claim C9. A registration that passes the mismatch check posts to
  \<^verbatim>\<open>/api/auth/register\<close> a body that holds \<^verbatim>\<open>confirmPassword\<close> with the confirmation
  typed in; every property of the form record other than \<^verbatim>\<open>role\<close> and
  \<^verbatim>\<open>experience_years\<close> is in the body unchanged.
\<close>

theorem register_sends_confirmPassword:
  assumes "\<not> isLogin a" and "Some (password data) = confirmPassword data"
  shows "(\<exists>rest. events (snd (authSubmit E (handleLogin E) data (a, w))) =
            events w @ Post (EXPO_PUBLIC_BACKEND_URL E @ ''/api/auth/register'')
                         (requestData E a data) [] # rest) \<and>
         map_of (requestData E a data) ''confirmPassword'' = Some (JStr (password data)) \<and>
         (\<forall>k v. map_of (authProperties data) k = Some v \<and> k \<noteq> ''role'' \<and>
                k \<noteq> ''experience_years'' \<longrightarrow> map_of (requestData E a data) k = Some v)"
proof -
  have "\<exists>rest. events (snd (authSubmit E (handleLogin E) data (a, w))) =
            events w @ Post (EXPO_PUBLIC_BACKEND_URL E @ ''/api/auth/register'')
                         (requestData E a data) [] # rest"
    using assms
    by (simp add: authSubmit_def Let_def sent_def alert_def endpoint_def handleLogin_events
        split: sum.split option.split)
  moreover have "map_of (requestData E a data) ''confirmPassword'' = Some (JStr (password data))"
    using assms
    by (simp add: requestData_def update_conv' map_of_authProperties_confirmPassword
        flip: assms(2))
  moreover have "\<forall>k v. map_of (authProperties data) k = Some v \<and> k \<noteq> ''role'' \<and>
                k \<noteq> ''experience_years'' \<longrightarrow> map_of (requestData E a data) k = Some v"
    using assms(1) by (simp add: requestData_def update_conv')
  ultimately show ?thesis by blast
qed

text \<open>The example registration, with matching passwords.\<close>

theorem register_sends_confirmPassword_witness:
  "\<not> isLogin registerScreen \<and> Some (password registration) = confirmPassword registration \<and>
   map_of (requestData exampleEnv registerScreen registration) ''confirmPassword'' = Some (JStr ''abc123'') \<and>
   map_of (requestData exampleEnv registerScreen registration) ''email'' = Some (JStr ''ann@example.com'')"
proof -
  have h1: "\<not> isLogin registerScreen" by (simp add: registerScreen_def)
  have h2: "Some (password registration) = confirmPassword registration"
    by (simp add: registration_def)
  have h3: "map_of (authProperties registration) ''email'' = Some (JStr ''ann@example.com'')"
    by (simp add: authProperties_def registration_def)
  from register_sends_confirmPassword [OF h1 h2, of exampleEnv index0] h1 h2 h3
  show ?thesis by (auto simp add: registration_def)
qed

text \<open>
  Claim C5. Once the login or registration request has returned a token, the next
  request is a GET of \<^verbatim>\<open>/api/auth/me\<close> whose Authorization header is \<^verbatim>\<open>Bearer\<close> followed
  by that token. If this request fails, the handler only raises an error alert: the
  callback \<open>onLogin\<close> is not applied, so with \<open>handleLogin\<close> as the callback
  \<open>isAuthenticated\<close> keeps its value. If it succeeds, \<open>onLogin\<close> is applied to the
  token and the profile. With \<open>handleLogin\<close> as the callback, \<open>isAuthenticated\<close> can
  turn from false to true only when the profile request succeeded. A token is the
  non-empty string in \<^verbatim>\<open>access_token\<close>.
\<close>

theorem session_two_step:
  assumes pass: "isLogin a \<or> Some (password data) = confirmPassword data"
    and post: "axios_post E (EXPO_PUBLIC_BACKEND_URL E @ ''/api'' @ endpoint a)
                 (requestData E a data) [] = Inr (Some response)"
    and tok: "access_token response = Some token" "token \<noteq> []"
  shows "(\<forall>error. axios_get_user E (EXPO_PUBLIC_BACKEND_URL E @ ''/api/auth/me'')
                     [(''Authorization'', ''Bearer '' @ token)] = Inl error \<longrightarrow>
            authSubmit E onLogin data (a, w) =
              (a\<lparr>AuthScreen.loading := False\<rparr>,
               w\<lparr>events := events w @
                  [Post (EXPO_PUBLIC_BACKEND_URL E @ ''/api'' @ endpoint a) (requestData E a data) [],
                   Get (EXPO_PUBLIC_BACKEND_URL E @ ''/api/auth/me'')
                     [(''Authorization'', ''Bearer '' @ token)],
                   Alert ''Error''
                     (orElse (detail error) ''An error occurred. Please try again.'')]\<rparr>)) \<and>
         (\<forall>userData. axios_get_user E (EXPO_PUBLIC_BACKEND_URL E @ ''/api/auth/me'')
                     [(''Authorization'', ''Bearer '' @ token)] = Inr userData \<longrightarrow>
            authSubmit E onLogin data (a, w) =
              (a\<lparr>AuthScreen.loading := False\<rparr>,
               alert ''Success''
                 (if isLogin a then ''Welcome back!'' else ''Account created successfully!'')
                 (onLogin token userData
                    (w\<lparr>events := events w @
                       [Post (EXPO_PUBLIC_BACKEND_URL E @ ''/api'' @ endpoint a)
                          (requestData E a data) [],
                        Get (EXPO_PUBLIC_BACKEND_URL E @ ''/api/auth/me'')
                          [(''Authorization'', ''Bearer '' @ token)]]\<rparr>)))) \<and>
         (\<forall>i error. axios_get_user E (EXPO_PUBLIC_BACKEND_URL E @ ''/api/auth/me'')
                     [(''Authorization'', ''Bearer '' @ token)] = Inl error \<longrightarrow>
              isAuthenticated (snd (authSubmit E (handleLogin E) data (a, i))) =
                isAuthenticated i) \<and>
         (\<forall>i. isAuthenticated (snd (authSubmit E (handleLogin E) data (a, i))) \<and>
              \<not> isAuthenticated i \<longrightarrow>
              (\<exists>userData. axios_get_user E (EXPO_PUBLIC_BACKEND_URL E @ ''/api/auth/me'')
                     [(''Authorization'', ''Bearer '' @ token)] = Inr userData))"
proof -
  let ?me = "EXPO_PUBLIC_BACKEND_URL E @ ''/api/auth/me''"
  let ?hd = "[(''Authorization'', ''Bearer '' @ token)]"
  have fails: "authSubmit E f data (a, v) =
              (a\<lparr>AuthScreen.loading := False\<rparr>,
               v\<lparr>events := events v @
                  [Post (EXPO_PUBLIC_BACKEND_URL E @ ''/api'' @ endpoint a) (requestData E a data) [],
                   Get ?me ?hd,
                   Alert ''Error''
                     (orElse (detail error) ''An error occurred. Please try again.'')]\<rparr>)"
    if "axios_get_user E ?me ?hd = Inl error" for error f and v :: "'c Device_scheme"
    using assms that
    by (auto simp add: authSubmit_def Let_def sent_def alert_def truthy_def bearer_def
        template_def)
  have succeeds: "authSubmit E f data (a, v) =
              (a\<lparr>AuthScreen.loading := False\<rparr>,
               alert ''Success''
                 (if isLogin a then ''Welcome back!'' else ''Account created successfully!'')
                 (f token userData
                    (v\<lparr>events := events v @
                       [Post (EXPO_PUBLIC_BACKEND_URL E @ ''/api'' @ endpoint a)
                          (requestData E a data) [],
                        Get ?me ?hd]\<rparr>)))"
    if "axios_get_user E ?me ?hd = Inr userData" for userData f and v :: "'c Device_scheme"
    using assms that
    by (auto simp add: authSubmit_def Let_def sent_def alert_def truthy_def bearer_def
        template_def)
  have only_if: "\<exists>userData. axios_get_user E ?me ?hd = Inr userData"
    if "isAuthenticated (snd (authSubmit E (handleLogin E) data (a, i)))"
      and "\<not> isAuthenticated i" for i
  proof (cases "axios_get_user E ?me ?hd")
    case (Inl error)
    from fails [OF Inl, of "handleLogin E" i] that show ?thesis by simp
  next
    case (Inr userData)
    then show ?thesis by blast
  qed
  have unchanged: "isAuthenticated (snd (authSubmit E (handleLogin E) data (a, i))) =
      isAuthenticated i"
    if "axios_get_user E ?me ?hd = Inl error" for i error
    using fails [OF that, of "handleLogin E" i] by simp
  from fails succeeds unchanged only_if show ?thesis by blast
qed

text \<open>
  A login where the profile request fails leaves the state of the root component as it
  was, and a login where it succeeds ends authenticated.
\<close>

theorem session_two_step_witness:
  "authSubmit noProfileEnv (handleLogin noProfileEnv) registration (loginScreen, index0) =
     (loginScreen,
      index0\<lparr>events :=
        [Post ''https://api.test/api/auth/login''
           [(''email'', JStr ''ann@example.com''), (''password'', JStr ''abc123'')] [],
         Get ''https://api.test/api/auth/me'' [(''Authorization'', ''Bearer tok-1'')],
         Alert ''Error'' ''An error occurred. Please try again.'']\<rparr>) \<and>
   isAuthenticated (snd (authSubmit exampleEnv (handleLogin exampleEnv) registration
     (loginScreen, index0)))"
proof -
  have pass: "isLogin loginScreen \<or> Some (password registration) = confirmPassword registration"
    by (simp add: loginScreen_def)
  have post: "axios_post noProfileEnv
                (EXPO_PUBLIC_BACKEND_URL noProfileEnv @ ''/api'' @ endpoint loginScreen)
                (requestData noProfileEnv loginScreen registration) [] =
              Inr (Some \<lparr>access_token = Some ''tok-1''\<rparr>)"
    by (simp add: noProfileEnv_def exampleEnv_def)
  have post': "axios_post exampleEnv
                (EXPO_PUBLIC_BACKEND_URL exampleEnv @ ''/api'' @ endpoint loginScreen)
                (requestData exampleEnv loginScreen registration) [] =
              Inr (Some \<lparr>access_token = Some ''tok-1''\<rparr>)"
    by (simp add: exampleEnv_def)
  have tok: "access_token \<lparr>access_token = Some ''tok-1''\<rparr> = Some ''tok-1''" "''tok-1'' \<noteq> []"
    by simp_all
  have fails: "axios_get_user noProfileEnv (EXPO_PUBLIC_BACKEND_URL noProfileEnv @ ''/api/auth/me'')
      [(''Authorization'', ''Bearer '' @ ''tok-1'')] = Inl (HttpError None)"
    by (simp add: noProfileEnv_def)
  have succeeds: "axios_get_user exampleEnv (EXPO_PUBLIC_BACKEND_URL exampleEnv @ ''/api/auth/me'')
      [(''Authorization'', ''Bearer '' @ ''tok-1'')] = Inr []"
    by (simp add: exampleEnv_def)
  note failing = session_two_step [OF pass post tok, of "handleLogin noProfileEnv" index0,
      THEN conjunct1, rule_format, OF fails]
  note passing = session_two_step [OF pass post' tok, of "handleLogin exampleEnv" index0,
      THEN conjunct2, THEN conjunct1, rule_format, OF succeeds]
  have first: "authSubmit noProfileEnv (handleLogin noProfileEnv) registration
      (loginScreen, index0) =
     (loginScreen,
      index0\<lparr>events :=
        [Post ''https://api.test/api/auth/login''
           [(''email'', JStr ''ann@example.com''), (''password'', JStr ''abc123'')] [],
         Get ''https://api.test/api/auth/me'' [(''Authorization'', ''Bearer tok-1'')],
         Alert ''Error'' ''An error occurred. Please try again.'']\<rparr>)"
    using failing
    by (simp add: requestData_login loginScreen_simps example_urls orElse_def)
  have second: "isAuthenticated (snd (authSubmit exampleEnv (handleLogin exampleEnv)
      registration (loginScreen, index0)))"
    using passing
    by (simp add: exampleEnv_def handleLogin_def setItem_def alert_def)
  from first second show ?thesis by (rule conjI)
qed

section \<open>Properties of the root shell\<close>

text \<open>
  Claim C10. \<open>checkAuthStatus\<close> never writes to storage and raises no alert, and it
  always ends with \<open>loading\<close> false, also when a storage read rejects or the stored
  profile does not parse. When one of the keys \<^verbatim>\<open>access_token\<close> and \<^verbatim>\<open>user_data\<close> is
  missing, \<open>isAuthenticated\<close> and \<open>user\<close> keep their values; \<open>isAuthenticated\<close> turns
  from false to true only when both keys are present. When both are present, non-empty,
  readable and the profile parses, the user is marked authenticated.
\<close>

theorem checkAuthStatus_restore:
  "storage (checkAuthStatus E w) = storage w \<and>
   events (checkAuthStatus E w) = events w \<and>
   \<not> Index.loading (checkAuthStatus E w) \<and>
   (storage w ''access_token'' = None \<or> storage w ''user_data'' = None \<longrightarrow>
      isAuthenticated (checkAuthStatus E w) = isAuthenticated w \<and>
      user (checkAuthStatus E w) = user w) \<and>
   (isAuthenticated (checkAuthStatus E w) \<and> \<not> isAuthenticated w \<longrightarrow>
      (\<exists>token userData. storage w ''access_token'' = Some token \<and>
         storage w ''user_data'' = Some userData)) \<and>
   (\<forall>token userData parsedUser.
      \<not> getItem_rejects E ''access_token'' \<and> \<not> getItem_rejects E ''user_data'' \<and>
      storage w ''access_token'' = Some token \<and> token \<noteq> [] \<and>
      storage w ''user_data'' = Some userData \<and> userData \<noteq> [] \<and>
      JSON_parse E userData = Some parsedUser \<longrightarrow>
      isAuthenticated (checkAuthStatus E w) \<and> user (checkAuthStatus E w) = Some parsedUser)"
  by (auto simp add: checkAuthStatus_def getItem_def truthy_def Let_def
      split: option.splits sum.splits if_splits)

text \<open>Storage holding only the token, and storage holding both keys.\<close>

theorem checkAuthStatus_restore_witness:
  "\<not> isAuthenticated (checkAuthStatus exampleEnv (index0\<lparr>storage := [''access_token'' \<mapsto> ''tok-1'']\<rparr>)) \<and>
   storage (checkAuthStatus exampleEnv (index0\<lparr>storage := [''access_token'' \<mapsto> ''tok-1'']\<rparr>))
     ''access_token'' = Some ''tok-1'' \<and>
   \<not> Index.loading (checkAuthStatus exampleEnv (index0\<lparr>storage := [''access_token'' \<mapsto> ''tok-1'']\<rparr>)) \<and>
   isAuthenticated (checkAuthStatus exampleEnv
     (index0\<lparr>storage := [''access_token'' \<mapsto> ''tok-1'', ''user_data'' \<mapsto> ''{}'']\<rparr>))"
  using checkAuthStatus_restore [of exampleEnv "index0\<lparr>storage := [''access_token'' \<mapsto> ''tok-1'']\<rparr>"]
    checkAuthStatus_restore [of exampleEnv
      "index0\<lparr>storage := [''access_token'' \<mapsto> ''tok-1'', ''user_data'' \<mapsto> ''{}'']\<rparr>"]
  by (simp add: index0_def exampleEnv_def)

section \<open>Properties of the application submission\<close>

text \<open>
  Claim C6. When the POST to \<^verbatim>\<open>/api/jobs/{id}/apply\<close> fails, the state of the jobs
  screen, with the job list and every \<open>applications_count\<close> in it, is what it was
  before, and the only alert carries the \<open>detail\<close> of the server's answer when there is
  one, a fixed fallback text otherwise. An empty \<open>detail\<close> counts as none.
\<close>

theorem applyToJob_failure:
  assumes "\<not> getItem_rejects E ''access_token''"
    and "axios_post E (EXPO_PUBLIC_BACKEND_URL E @ ''/api/jobs/'' @ jobId @ ''/apply'')
           [(''message'', JStr ''I am interested in this position.'')]
           (bearer (storage dev ''access_token'')) = Inl error"
  shows "fst (applyToJob E jobId (st, dev)) = st \<and>
         map applications_count (jobs (fst (applyToJob E jobId (st, dev)))) =
           map applications_count (jobs st) \<and>
         snd (applyToJob E jobId (st, dev)) =
           dev\<lparr>events := events dev @
             [Post (EXPO_PUBLIC_BACKEND_URL E @ ''/api/jobs/'' @ jobId @ ''/apply'')
                [(''message'', JStr ''I am interested in this position.'')]
                (bearer (storage dev ''access_token'')),
              Alert ''Error''
                (case detail error of
                   None \<Rightarrow> ''Failed to apply to job. Please try again.''
                 | Some d \<Rightarrow> if d = [] then ''Failed to apply to job. Please try again.''
                             else d)]\<rparr>"
  using assms
  by (simp add: applyToJob_def getItem_def Let_def sent_def alert_def orElse_def)

text \<open>A rejected application to the front desk job, with a message from the server.\<close>

theorem applyToJob_failure_witness:
  "fst (applyToJob
         (exampleEnv\<lparr>axios_post := \<lambda>url body headers. Inl (HttpError (Some ''Already applied''))\<rparr>)
         ''j2'' (jobsScreen0, device0)) = jobsScreen0 \<and>
   events (snd (applyToJob
         (exampleEnv\<lparr>axios_post := \<lambda>url body headers. Inl (HttpError (Some ''Already applied''))\<rparr>)
         ''j2'' (jobsScreen0, device0))) =
     [Post ''https://api.test/api/jobs/j2/apply''
        [(''message'', JStr ''I am interested in this position.'')]
        [(''Authorization'', ''Bearer tok-1'')],
      Alert ''Error'' ''Already applied'']"
  using applyToJob_failure [of
      "exampleEnv\<lparr>axios_post := \<lambda>url body headers. Inl (HttpError (Some ''Already applied''))\<rparr>"
      "''j2''" device0 "HttpError (Some ''Already applied'')" jobsScreen0]
  by (simp add: exampleEnv_def device0_def bearer_def template_def)

section \<open>Properties of the job posting transform\<close>

lemma map_of_formProperties_recurring:
  "map_of (formProperties data) ''recurring_pattern'' = map_option JStr (recurring_pattern data)"
  "map_of (formProperties data) ''recurring_days'' =
     map_option (\<lambda>ds. JArr (map JStr ds)) (recurring_days data)"
  by (simp_all add: formProperties_def map_add_def map_of_optional split: option.split)

text \<open>
  Claim C2, as the code has it. The body carries \<^verbatim>\<open>recurring_pattern\<close> and
  \<^verbatim>\<open>recurring_days\<close> exactly as the form record holds them, whatever \<open>is_recurring\<close> and
  the pattern are. \<^verbatim>\<open>recurring_end_date\<close> is the converted date when the form's end date
  is a non-empty string, and undefined otherwise; \<open>is_recurring\<close> plays no part in
  it either.
\<close>

theorem jobData_recurrence:
  assumes "jobData E usr data = Some body"
  shows "map_of body ''recurring_pattern'' = map_option JStr (recurring_pattern data) \<and>
         map_of body ''recurring_days'' =
           map_option (\<lambda>ds. JArr (map JStr ds)) (recurring_days data) \<and>
         (truthy (recurring_end_date data) \<longrightarrow>
            (\<exists>iso. toISOString E (the (recurring_end_date data) @ ''T00:00:00.000Z'') = Some iso \<and>
               map_of body ''recurring_end_date'' = Some (JStr iso))) \<and>
         (\<not> truthy (recurring_end_date data) \<longrightarrow>
            map_of body ''recurring_end_date'' = Some JUndefined)"
  using assms
  by (auto simp add: jobData_def update_conv' map_of_formProperties_recurring
      split: option.splits if_splits)

text \<open>
  The filled form has no end date, so the body's end date is undefined; with an end
  date the body holds the converted one.
\<close>

theorem jobData_recurrence_witness:
  "jobData exampleEnv officeUser filledForm \<noteq> None \<and>
   map_of (the (jobData exampleEnv officeUser filledForm)) ''recurring_end_date'' =
     Some JUndefined \<and>
   jobData exampleEnv officeUser (filledForm\<lparr>recurring_end_date := Some ''2025-06-30''\<rparr>) \<noteq> None \<and>
   map_of (the (jobData exampleEnv officeUser
       (filledForm\<lparr>recurring_end_date := Some ''2025-06-30''\<rparr>))) ''recurring_end_date'' =
     Some (JStr ''2025-06-30T00:00:00.000Z'')"
proof -
  have a: "jobData exampleEnv officeUser filledForm \<noteq> None"
    by (simp add: jobData_def exampleEnv_def filledForm_def defaultValues_def truthy_def
        toString_def)
  then have a': "jobData exampleEnv officeUser filledForm =
      Some (the (jobData exampleEnv officeUser filledForm))"
    by simp
  have b: "jobData exampleEnv officeUser
      (filledForm\<lparr>recurring_end_date := Some ''2025-06-30''\<rparr>) \<noteq> None"
    by (simp add: jobData_def exampleEnv_def filledForm_def defaultValues_def truthy_def
        toString_def)
  then have b': "jobData exampleEnv officeUser
      (filledForm\<lparr>recurring_end_date := Some ''2025-06-30''\<rparr>) =
      Some (the (jobData exampleEnv officeUser
        (filledForm\<lparr>recurring_end_date := Some ''2025-06-30''\<rparr>)))"
    by simp
  have ta: "\<not> truthy (recurring_end_date filledForm)"
    by (simp add: filledForm_def defaultValues_def truthy_def)
  have tb: "truthy (recurring_end_date (filledForm\<lparr>recurring_end_date := Some ''2025-06-30''\<rparr>))"
    by (simp add: truthy_def)
  from jobData_recurrence [OF a'] ta
  have ra: "map_of (the (jobData exampleEnv officeUser filledForm)) ''recurring_end_date'' =
      Some JUndefined"
    by blast
  from jobData_recurrence [OF b'] tb
  have rb: "map_of (the (jobData exampleEnv officeUser
       (filledForm\<lparr>recurring_end_date := Some ''2025-06-30''\<rparr>))) ''recurring_end_date'' =
     Some (JStr ''2025-06-30T00:00:00.000Z'')"
    by (auto simp add: exampleEnv_def)
  from a b ra rb show ?thesis by blast
qed

text \<open>
  Claim C2 as stated fails. With recurrence switched off, the body of the filled form
  still holds the default pattern \<^verbatim>\<open>weekly\<close> and the empty weekday list; and under the
  monthly pattern the weekdays chosen earlier are still sent.
\<close>

theorem jobData_recurrence_counterexample:
  "\<not> is_recurring filledForm \<and>
   jobData exampleEnv officeUser filledForm \<noteq> None \<and>
   map_of (the (jobData exampleEnv officeUser filledForm)) ''recurring_pattern'' =
     Some (JStr ''weekly'') \<and>
   map_of (the (jobData exampleEnv officeUser filledForm)) ''recurring_days'' =
     Some (JArr []) \<and>
   recurring_pattern (filledForm\<lparr>is_recurring := True, recurring_pattern := Some ''monthly'',
        recurring_days := Some [''monday'']\<rparr>) \<noteq> Some ''weekly'' \<and>
   jobData exampleEnv officeUser
        (filledForm\<lparr>is_recurring := True, recurring_pattern := Some ''monthly'',
           recurring_days := Some [''monday'']\<rparr>) \<noteq> None \<and>
   map_of (the (jobData exampleEnv officeUser
        (filledForm\<lparr>is_recurring := True, recurring_pattern := Some ''monthly'',
           recurring_days := Some [''monday'']\<rparr>))) ''recurring_days'' =
     Some (JArr [JStr ''monday''])"
  by (simp add: jobData_def update_conv' map_of_formProperties_recurring filledForm_def
      defaultValues_def exampleEnv_def truthy_def toString_def)









end
